theory Spec2Isabelle
  imports Main
begin

section \<open>The RabbitMQ backend of MQClient\<close>

text \<open>
  This theory embeds \<^verbatim>\<open>MQClient/backends/rabbitmq.py\<close>: the handle classes
  \<^verbatim>\<open>RabbitMQ\<close>, \<^verbatim>\<open>RabbitMQPub\<close>, \<^verbatim>\<open>RabbitMQSub\<close>, the interface functions
  \<^verbatim>\<open>create_pub_queue\<close>, \<^verbatim>\<open>create_sub_queue\<close>, \<^verbatim>\<open>send_message\<close>,
  \<^verbatim>\<open>get_message\<close>, \<^verbatim>\<open>ack_message\<close>, and the generator \<^verbatim>\<open>message_generator\<close>.

  The module talks to the broker through the \<^verbatim>\<open>pika\<close> library only. The library is
  not part of the repository, so it appears here as the \<^emph>\<open>world\<close>: a record that logs
  every library call in order and that scripts the library's answers (which calls raise,
  what \<^verbatim>\<open>basic_get\<close> returns, what the \<^verbatim>\<open>consume\<close> iterator produces). Every function
  of the module takes the world and returns the world after its calls; a Python exception
  is a value of type \<open>exn\<close>.
\<close>

subsection \<open>Python values and exceptions\<close>

type_synonym bytes = string

type_synonym MessageID = int

text \<open>\<^verbatim>\<open>Message(msg_id, data)\<close> of the backend interface.\<close>

record Message =
  msg_id :: MessageID
  data :: bytes

text \<open>
  The exceptions that can travel through the module. \<open>RuntimeError\<close> is what the module
  raises itself, and what Python makes of a \<^verbatim>\<open>StopIteration\<close> that leaves a generator.
  \<open>StopIteration_exn\<close> is an instance of \<^verbatim>\<open>StopIteration\<close>, which is a subclass of
  \<^verbatim>\<open>Exception\<close>. \<open>Exception\<close> stands for any other instance of \<^verbatim>\<open>Exception\<close> (an
  error of the library or of the caller). \<open>KeyboardInterrupt\<close> and \<open>GeneratorExit\<close> derive
  from \<^verbatim>\<open>BaseException\<close> only, so the clause \<^verbatim>\<open>except Exception\<close> does not catch
  them.
\<close>

datatype exn =
    RuntimeError string
  | StopIteration_exn
  | Exception string
  | KeyboardInterrupt
  | GeneratorExit

fun is_Exception :: "exn \<Rightarrow> bool" where
  "is_Exception (RuntimeError _) = True"
| "is_Exception StopIteration_exn = True"
| "is_Exception (Exception _) = True"
| "is_Exception KeyboardInterrupt = False"
| "is_Exception GeneratorExit = False"

subsection \<open>The library: calls, answers and the world\<close>

text \<open>A method frame of a delivery carries the delivery tag.\<close>

datatype method_frame = Method (delivery_tag: int)

type_synonym header_frame = string

text \<open>
  One step of the iterator returned by \<^verbatim>\<open>channel.consume\<close>: a triple
  \<^verbatim>\<open>(method_frame, header_frame, body)\<close>, whose method frame is \<^verbatim>\<open>None\<close> after the
  inactivity timeout, or an exception raised by the library. The iterator raising
  \<^verbatim>\<open>StopIteration\<close> is the iterator coming to its end.
\<close>

datatype stream_item =
    Item "method_frame option" header_frame bytes
  | StreamRaises exn

text \<open>The library calls the module makes, with the arguments it passes.\<close>

datatype call =
    BlockingConnection string
  | ConnectionChannel
  | ConnectionClose
  | QueueDeclare string bool
  | ConfirmDelivery
  | BasicQos int bool
  | BasicPublish string string bytes
  | BasicGet string
  | BasicAck int
  | BasicNack int
  | Consume string int
  | Cancel

text \<open>
  \<open>calls\<close> is the log of the calls issued so far, oldest first. \<open>fails\<close> tells, from the
  log before a call, whether that call raises. \<open>is_closed\<close> and \<open>is_closing\<close> are the
  attributes of the connection object. \<open>get_reply\<close> is the triple \<^verbatim>\<open>basic_get\<close> returns.
  \<open>feed\<close> is what the \<^verbatim>\<open>consume\<close> iterator will produce, in order; when it is empty the
  iterator is exhausted. \<open>warnings\<close> collects what \<^verbatim>\<open>logging.warn\<close> was given.
\<close>

record world =
  calls :: "call list"
  fails :: "call list \<Rightarrow> call \<Rightarrow> exn option"
  is_closed :: bool
  is_closing :: bool
  get_reply :: "call list \<Rightarrow> method_frame option \<times> header_frame \<times> bytes"
  feed :: "stream_item list"
  warnings :: "exn list"

definition invoke :: "call \<Rightarrow> world \<Rightarrow> exn option \<times> world" where
  "invoke c w = (fails w (calls w) c, w\<lparr>calls := calls w @ [c]\<rparr>)"

subsection \<open>The handle classes\<close>

text \<open>
  The attributes \<^verbatim>\<open>connection\<close> and \<^verbatim>\<open>channel\<close> are \<^verbatim>\<open>None\<close> or a reference to the
  library object, whose state lives in the world. The module only ever tests them for
  truth, and both library objects are true.
\<close>

datatype pika_connection = Connection

datatype pika_channel = Channel

record RabbitMQ =
  address :: string
  queue :: string
  connection :: "pika_connection option"
  channel :: "pika_channel option"
  consumer_id :: "string option"
  prefetch :: int

definition RabbitMQ_init :: "string \<Rightarrow> string \<Rightarrow> RabbitMQ" where
  "RabbitMQ_init address' queue' =
     \<lparr>address = address', queue = queue', connection = None, channel = None,
      consumer_id = None, prefetch = 1\<rparr>"

definition RabbitMQSub_init :: "string \<Rightarrow> string \<Rightarrow> RabbitMQ" where
  "RabbitMQSub_init address' queue' =
     (RabbitMQ_init address' queue')\<lparr>consumer_id := None, prefetch := 1\<rparr>"

text \<open>
  \<^verbatim>\<open>connect\<close> assigns \<^verbatim>\<open>self.connection\<close> before it asks for the channel, so the
  handle is returned as it stands when the call leaves, with the exception if one was
  raised.
\<close>

definition connect :: "RabbitMQ \<Rightarrow> world \<Rightarrow> exn option \<times> RabbitMQ \<times> world" where
  "connect self w =
     (case invoke (BlockingConnection (address self)) w of
        (Some e, w1) \<Rightarrow> (Some e, self, w1)
      | (None, w1) \<Rightarrow>
          (let self1 = self\<lparr>connection := Some Connection\<rparr>;
               w2 = w1\<lparr>is_closed := False, is_closing := False\<rparr>
           in case invoke ConnectionChannel w2 of
                (Some e, w3) \<Rightarrow> (Some e, self1, w3)
              | (None, w3) \<Rightarrow> (None, self1\<lparr>channel := Some Channel\<rparr>, w3)))"


definition RabbitMQPub_connect :: "RabbitMQ \<Rightarrow> world \<Rightarrow> exn option \<times> RabbitMQ \<times> world" where
  "RabbitMQPub_connect self w =
     (case connect self w of
        (Some e, self1, w1) \<Rightarrow> (Some e, self1, w1)
      | (None, self1, w1) \<Rightarrow>
          (case invoke (QueueDeclare (queue self1) False) w1 of
             (Some e, w2) \<Rightarrow> (Some e, self1, w2)
           | (None, w2) \<Rightarrow>
               (case invoke ConfirmDelivery w2 of
                  (Some e, w3) \<Rightarrow> (Some e, self1, w3)
                | (None, w3) \<Rightarrow> (None, self1, w3))))"

definition RabbitMQSub_connect :: "RabbitMQ \<Rightarrow> world \<Rightarrow> exn option \<times> RabbitMQ \<times> world" where
  "RabbitMQSub_connect self w =
     (case connect self w of
        (Some e, self1, w1) \<Rightarrow> (Some e, self1, w1)
      | (None, self1, w1) \<Rightarrow>
          (case invoke (BasicQos (prefetch self1) True) w1 of
             (Some e, w2) \<Rightarrow> (Some e, self1, w2)
           | (None, w2) \<Rightarrow> (None, self1, w2)))"

subsection \<open>The interface functions\<close>

definition create_pub_queue :: "string \<Rightarrow> string \<Rightarrow> world \<Rightarrow> (exn + RabbitMQ) \<times> world" where
  "create_pub_queue address' name w =
     (let q = RabbitMQ_init address' name
      in case RabbitMQPub_connect q w of
           (Some e, q1, w1) \<Rightarrow> (Inl e, w1)
         | (None, q1, w1) \<Rightarrow> (Inr q1, w1))"

text \<open>The parameter \<^verbatim>\<open>prefetch\<close> has the default 1: \<open>None\<close> is the call without it.\<close>

definition create_sub_queue ::
  "string \<Rightarrow> string \<Rightarrow> int option \<Rightarrow> world \<Rightarrow> (exn + RabbitMQ) \<times> world" where
  "create_sub_queue address' name prefetch' w =
     (let q = RabbitMQSub_init address' name;
          q = q\<lparr>prefetch := (case prefetch' of None \<Rightarrow> 1 | Some p \<Rightarrow> p)\<rparr>
      in case RabbitMQSub_connect q w of
           (Some e, q1, w1) \<Rightarrow> (Inl e, w1)
         | (None, q1, w1) \<Rightarrow> (Inr q1, w1))"

definition not_connected :: exn where
  "not_connected = RuntimeError ''queue is not connected''"

definition send_message :: "RabbitMQ \<Rightarrow> bytes \<Rightarrow> world \<Rightarrow> (exn + unit) \<times> world" where
  "send_message queue' msg w =
     (if channel queue' = None then (Inl not_connected, w)
      else (case invoke (BasicPublish '''' (queue queue') msg) w of
              (Some e, w1) \<Rightarrow> (Inl e, w1)
            | (None, w1) \<Rightarrow> (Inr (), w1)))"

definition get_message :: "RabbitMQ \<Rightarrow> world \<Rightarrow> (exn + Message option) \<times> world" where
  "get_message queue' w =
     (if channel queue' = None then (Inl not_connected, w)
      else (case invoke (BasicGet (queue queue')) w of
              (Some e, w1) \<Rightarrow> (Inl e, w1)
            | (None, w1) \<Rightarrow>
                (case get_reply w (calls w) of
                   (Some method_frame, header, body) \<Rightarrow>
                     (Inr (Some \<lparr>msg_id = delivery_tag method_frame, data = body\<rparr>), w1)
                 | (None, header, body) \<Rightarrow> (Inr None, w1))))"

definition ack_message :: "RabbitMQ \<Rightarrow> MessageID \<Rightarrow> world \<Rightarrow> (exn + unit) \<times> world" where
  "ack_message queue' msg_id' w =
     (if channel queue' = None then (Inl not_connected, w)
      else (case invoke (BasicAck msg_id') w of
              (Some e, w1) \<Rightarrow> (Inl e, w1)
            | (None, w1) \<Rightarrow> (Inr (), w1)))"

subsection \<open>The generator\<close>

text \<open>
  A Python generator is an object that is created without running its body, and is then
  advanced by \<^verbatim>\<open>next\<close>, \<^verbatim>\<open>throw\<close> and \<^verbatim>\<open>close\<close>. Its state is the arguments of the call
  and the place where the body stands: not started, suspended at the \<^verbatim>\<open>yield\<close> of line
  134 (inside both \<^verbatim>\<open>try\<close> statements and the loop, with \<^verbatim>\<open>method_frame\<close> bound), or
  finished.
\<close>

datatype pc = Created | Suspended method_frame | Done

record generator =
  gen_queue :: RabbitMQ
  timeout :: int
  auto_ack :: bool
  propagate_error :: bool
  pc :: pc

text \<open>
  What the caller gets back from advancing the generator: the message of a \<^verbatim>\<open>yield\<close>,
  \<^verbatim>\<open>StopIteration\<close> (the body returned), an exception that left the body, or the plain
  return of \<^verbatim>\<open>close\<close>.
\<close>

datatype outcome = Yield Message | StopIteration | Raise exn | Returned

text \<open>
  Calling \<^verbatim>\<open>message_generator\<close> binds the arguments and runs nothing. \<^verbatim>\<open>auto_ack\<close> and
  \<^verbatim>\<open>propagate_error\<close> have defaults: \<open>None\<close> is the call that leaves the parameter out.
\<close>

definition message_generator ::
  "RabbitMQ \<Rightarrow> int \<Rightarrow> bool option \<Rightarrow> bool option \<Rightarrow> generator" where
  "message_generator queue' timeout' auto_ack' propagate_error' =
     \<lparr>gen_queue = queue', timeout = timeout',
      auto_ack = (case auto_ack' of None \<Rightarrow> True | Some b \<Rightarrow> b),
      propagate_error = (case propagate_error' of None \<Rightarrow> True | Some b \<Rightarrow> b),
      pc = Created\<rparr>"

text \<open>
  What the caller sees of an outcome that leaves the body of a generator: Python turns a
  \<^verbatim>\<open>StopIteration\<close> raised out of the body into
  \<^verbatim>\<open>RuntimeError('generator raised StopIteration')\<close>.
\<close>

definition leave :: "outcome \<Rightarrow> outcome" where
  "leave r =
     (if r = Raise StopIteration_exn then Raise (RuntimeError ''generator raised StopIteration'')
      else r)"

text \<open>
  The \<^verbatim>\<open>finally\<close> clause of line 145, entered with what is about to leave the
  \<^verbatim>\<open>try\<close> statement: \<^verbatim>\<open>queue.channel.cancel()\<close> runs, and an exception it raises
  replaces the one in flight. Nothing stands behind the clause, so what leaves it leaves
  the body.
\<close>

definition finally_cancel :: "outcome \<Rightarrow> generator \<Rightarrow> world \<Rightarrow> outcome \<times> generator \<times> world" where
  "finally_cancel leaving g w =
     (case invoke Cancel w of
        (Some e, w1) \<Rightarrow> (leave (Raise e), g\<lparr>pc := Done\<rparr>, w1)
      | (None, w1) \<Rightarrow> (leave leaving, g\<lparr>pc := Done\<rparr>, w1))"

text \<open>
  The head of the \<^verbatim>\<open>for\<close> loop of line 130 asks the \<^verbatim>\<open>consume\<close> iterator for its next
  item: the exhausted iterator (its \<^verbatim>\<open>StopIteration\<close>) ends the loop, any other
  exception of the iterator leaves the \<^verbatim>\<open>try\<close>, an item without method frame takes the
  \<^verbatim>\<open>break\<close> of line 132, and any other item reaches the \<^verbatim>\<open>yield\<close>.
\<close>

definition for_loop :: "generator \<Rightarrow> world \<Rightarrow> outcome \<times> generator \<times> world" where
  "for_loop g w =
     (case feed w of
        [] \<Rightarrow> finally_cancel StopIteration g w
      | StreamRaises e # rest \<Rightarrow>
          (if e = StopIteration_exn then finally_cancel StopIteration g (w\<lparr>feed := rest\<rparr>)
           else finally_cancel (Raise e) g (w\<lparr>feed := rest\<rparr>))
      | Item None header body # rest \<Rightarrow> finally_cancel StopIteration g (w\<lparr>feed := rest\<rparr>)
      | Item (Some method_frame) header body # rest \<Rightarrow>
          (Yield \<lparr>msg_id = delivery_tag method_frame, data = body\<rparr>,
           g\<lparr>pc := Suspended method_frame\<rparr>, w\<lparr>feed := rest\<rparr>))"

text \<open>
  \<^verbatim>\<open>next(gen)\<close>. A generator that was not started runs the guard of line 127, which
  stands before the \<^verbatim>\<open>try\<close>, then calls \<^verbatim>\<open>consume\<close> (a generator function of the
  library: the call itself only builds the iterator) and enters the loop. A suspended
  generator sees its \<^verbatim>\<open>yield\<close> return, runs the \<^verbatim>\<open>else\<close> clause of line 141 and goes
  back to the head of the loop.
\<close>

definition gen_next :: "generator \<Rightarrow> world \<Rightarrow> outcome \<times> generator \<times> world" where
  "gen_next g w =
     (case pc g of
        Created \<Rightarrow>
          (if channel (gen_queue g) = None then (Raise not_connected, g\<lparr>pc := Done\<rparr>, w)
           else for_loop g (w\<lparr>calls := calls w @ [Consume (queue (gen_queue g)) (timeout g)]\<rparr>))
      | Suspended method_frame \<Rightarrow>
          (if auto_ack g
           then (case invoke (BasicAck (delivery_tag method_frame)) w of
                   (Some e, w1) \<Rightarrow> finally_cancel (Raise e) g w1
                 | (None, w1) \<Rightarrow> for_loop g w1)
           else for_loop g w)
      | Done \<Rightarrow> (StopIteration, g, w))"

text \<open>
  \<^verbatim>\<open>gen.throw(e)\<close>. At the \<^verbatim>\<open>yield\<close> the exception is raised inside the inner
  \<^verbatim>\<open>try\<close>: an instance of \<^verbatim>\<open>Exception\<close> enters the handler of line 135, which nacks
  and then re-raises or logs and goes on with the loop; any other exception passes the
  handler and the \<^verbatim>\<open>else\<close> clause and leaves through \<^verbatim>\<open>finally\<close>. In a generator
  that was not started the exception is raised at the start of the body and leaves it at
  once; a generator that has finished raises the exception as it is.
\<close>

definition gen_throw :: "generator \<Rightarrow> exn \<Rightarrow> world \<Rightarrow> outcome \<times> generator \<times> world" where
  "gen_throw g e w =
     (case pc g of
        Created \<Rightarrow> (leave (Raise e), g\<lparr>pc := Done\<rparr>, w)
      | Suspended method_frame \<Rightarrow>
          (if is_Exception e
           then (case invoke (BasicNack (delivery_tag method_frame)) w of
                   (Some e1, w1) \<Rightarrow> finally_cancel (Raise e1) g w1
                 | (None, w1) \<Rightarrow>
                     (if propagate_error g then finally_cancel (Raise e) g w1
                      else for_loop g (w1\<lparr>warnings := warnings w1 @ [e]\<rparr>)))
           else finally_cancel (Raise e) g w)
      | Done \<Rightarrow> (Raise e, g, w))"

text \<open>
  \<^verbatim>\<open>gen.close()\<close>, which is also what happens to a suspended generator that the caller
  drops: \<^verbatim>\<open>GeneratorExit\<close> is thrown at the \<^verbatim>\<open>yield\<close>; \<^verbatim>\<open>close\<close> returns when the
  body ends or lets \<^verbatim>\<open>GeneratorExit\<close> out, and raises \<^verbatim>\<open>RuntimeError\<close> when the body
  yields again.
\<close>

definition gen_close :: "generator \<Rightarrow> world \<Rightarrow> outcome \<times> generator \<times> world" where
  "gen_close g w =
     (case pc g of
        Created \<Rightarrow> (Returned, g\<lparr>pc := Done\<rparr>, w)
      | Suspended method_frame \<Rightarrow>
          (case gen_throw g GeneratorExit w of
             (Raise e, g1, w1) \<Rightarrow> ((if e = GeneratorExit then Returned else Raise e), g1, w1)
           | (Yield m, g1, w1) \<Rightarrow> (Raise (RuntimeError ''generator ignored GeneratorExit''), g1, w1)
           | (r, g1, w1) \<Rightarrow> (Returned, g1, w1))
      | Done \<Rightarrow> (Returned, g, w))"

subsection \<open>The caller\<close>

text \<open>
  What the caller does with a message it was handed: it comes back for the next one, it
  throws an exception into the generator, or it closes the generator.
\<close>

datatype action = Next | Throw exn | Close

fun resume :: "action \<Rightarrow> generator \<Rightarrow> world \<Rightarrow> outcome \<times> generator \<times> world" where
  "resume Next g w = gen_next g w"
| "resume (Throw e) g w = gen_throw g e w"
| "resume Close g w = gen_close g w"

text \<open>
  A run: the caller answers each yielded message with the next action of its script. The
  result lists the yielded messages that were answered, each with its answer, and gives
  the last outcome (a message still in flight when the script ran out) with the final
  generator and world.
\<close>

fun drive ::
  "action list \<Rightarrow> outcome \<times> generator \<times> world \<Rightarrow>
   (Message \<times> action) list \<times> outcome \<times> generator \<times> world" where
  "drive (a # as) (Yield m, g, w) =
     (case drive as (resume a g w) of (tr, r) \<Rightarrow> ((m, a) # tr, r))"
| "drive as r = ([], r)"

definition run ::
  "generator \<Rightarrow> action list \<Rightarrow> world \<Rightarrow>
   (Message \<times> action) list \<times> outcome \<times> generator \<times> world" where
  "run g as w = drive as (gen_next g w)"

text \<open>The acks and nacks in a log of calls, in the order they were issued.\<close>

fun acks :: "call list \<Rightarrow> int list" where
  "acks [] = []"
| "acks (BasicAck t # cs) = t # acks cs"
| "acks (c # cs) = acks cs"

fun nacks :: "call list \<Rightarrow> int list" where
  "nacks [] = []"
| "nacks (BasicNack t # cs) = t # nacks cs"
| "nacks (c # cs) = nacks cs"

text \<open>
  The calls issued between two worlds, and, for the answered messages of a run, the
  identifiers of those the caller came back from with \<^verbatim>\<open>next\<close> and of those at
  whose \<^verbatim>\<open>yield\<close> it threw an instance of \<^verbatim>\<open>Exception\<close>.
\<close>

definition issued :: "world \<Rightarrow> world \<Rightarrow> call list" where
  "issued w w1 = drop (length (calls w)) (calls w1)"

fun returned :: "(Message \<times> action) list \<Rightarrow> int list" where
  "returned [] = []"
| "returned ((m, a) # tr) = (if a = Next then msg_id m # returned tr else returned tr)"

fun raised_on :: "(Message \<times> action) list \<Rightarrow> int list" where
  "raised_on [] = []"
| "raised_on ((m, Throw e) # tr) =
     (if is_Exception e then msg_id m # raised_on tr else raised_on tr)"
| "raised_on ((m, a) # tr) = raised_on tr"

text \<open>
  The operations that take the generator to the head of the loop when the library calls
  on the way return: \<^verbatim>\<open>next\<close> on a generator that is suspended, or not started on a
  connected handle, and \<^verbatim>\<open>throw\<close> of an instance of \<^verbatim>\<open>Exception\<close> at a
  \<^verbatim>\<open>yield\<close> when \<^verbatim>\<open>propagate_error\<close> is false.
\<close>

fun fetches :: "generator \<Rightarrow> action \<Rightarrow> bool" where
  "fetches g Next =
     (case pc g of Created \<Rightarrow> channel (gen_queue g) \<noteq> None | Suspended mf \<Rightarrow> True
      | Done \<Rightarrow> False)"
| "fetches g (Throw e) =
     (case pc g of Suspended mf \<Rightarrow> is_Exception e \<and> \<not> propagate_error g | _ \<Rightarrow> False)"
| "fetches g Close = False"

subsection \<open>Example worlds\<close>

text \<open>
  A library in which no call raises, as the mocked connection of the unit tests, one in
  which every call made after \<^verbatim>\<open>connection.close()\<close> raises the library's own error,
  and one in which \<^verbatim>\<open>cancel\<close> raises it.
\<close>

definition never_fails :: "call list \<Rightarrow> call \<Rightarrow> exn option" where
  "never_fails cs c = None"

definition fails_once_closed :: "call list \<Rightarrow> call \<Rightarrow> exn option" where
  "fails_once_closed cs c =
     (if ConnectionClose \<in> set cs then Some (Exception ''Channel is closed.'') else None)"

definition cancel_fails :: "call list \<Rightarrow> call \<Rightarrow> exn option" where
  "cancel_fails cs c = (if c = Cancel then Some (Exception ''Channel is closed.'') else None)"

definition mock_con :: "stream_item list \<Rightarrow> world" where
  "mock_con items =
     \<lparr>calls = [], fails = never_fails, is_closed = False, is_closing = False,
      get_reply = (\<lambda>cs. (None, [], [])), feed = items, warnings = []\<rparr>"

definition connected_sub :: RabbitMQ where
  "connected_sub =
     (RabbitMQSub_init ''localhost'' ''q'')\<lparr>connection := Some Connection, channel := Some Channel\<rparr>"

definition connected_pub :: RabbitMQ where
  "connected_pub =
     (RabbitMQ_init ''localhost'' ''q'')\<lparr>connection := Some Connection, channel := Some Channel\<rparr>"

definition three_messages :: "stream_item list" where
  "three_messages =
     [Item (Some (Method 0)) [] ''baz-0'', Item (Some (Method 1)) [] ''baz-1'',
      Item (Some (Method 2)) [] ''baz-2'']"

lemmas example_defs = mock_con_def connected_sub_def connected_pub_def three_messages_def
  RabbitMQSub_init_def RabbitMQ_init_def message_generator_def never_fails_def
  fails_once_closed_def cancel_fails_def

lemmas gen_defs = run_def gen_next_def gen_throw_def gen_close_def for_loop_def
  finally_cancel_def leave_def invoke_def issued_def not_connected_def

section \<open>Properties\<close>

subsection \<open>One operation\<close>

lemma acks_append: "acks (xs @ ys) = acks xs @ acks ys"
  by (induction xs rule: acks.induct) simp_all

lemma nacks_append: "nacks (xs @ ys) = nacks xs @ nacks ys"
  by (induction xs rule: nacks.induct) simp_all

lemma issued_eq: "calls w1 = calls w @ cs \<Longrightarrow> issued w w1 = cs"
  by (simp add: issued_def)

lemma leave_simps [simp]:
  "leave (Yield m) = Yield m" "leave StopIteration = StopIteration" "leave Returned = Returned"
  "leave r = Yield m \<longleftrightarrow> r = Yield m" "leave r = Returned \<longleftrightarrow> r = Returned"
  "leave r = StopIteration \<longleftrightarrow> r = StopIteration"
  "e \<noteq> StopIteration_exn \<Longrightarrow> leave (Raise e) = Raise e"
  by (auto simp: leave_def)

lemma finally_cancel_eq:
  "finally_cancel leaving g w =
     (leave (case fails w (calls w) Cancel of Some e \<Rightarrow> Raise e | None \<Rightarrow> leaving),
      g\<lparr>pc := Done\<rparr>, w\<lparr>calls := calls w @ [Cancel]\<rparr>)"
  by (simp add: finally_cancel_def invoke_def split: option.splits)

lemma for_loop_result:
  assumes "for_loop g w = (out, g1, w1)"
  shows "(\<exists>mf h b rest. feed w = Item (Some mf) h b # rest \<and> out = Yield \<lparr>msg_id = delivery_tag mf, data = b\<rparr>
            \<and> g1 = g\<lparr>pc := Suspended mf\<rparr> \<and> w1 = w\<lparr>feed := rest\<rparr>)
       \<or> ((\<forall>m. out \<noteq> Yield m) \<and> out \<noteq> Returned \<and> g1 = g\<lparr>pc := Done\<rparr> \<and> calls w1 = calls w @ [Cancel]
            \<and> fails w1 = fails w)"
  using assms
  by (auto simp: for_loop_def finally_cancel_eq
           split: list.splits stream_item.splits option.splits if_splits)

lemma step_log:
  assumes "resume a g w = (out, g1, w1)" and "pc g = Suspended mf"
  shows "calls w1 = calls w @ issued w w1"
    and "acks (issued w w1) = (if a = Next \<and> auto_ack g then [delivery_tag mf] else [])"
    and "nacks (issued w w1) = (case a of Throw e \<Rightarrow> if is_Exception e then [delivery_tag mf] else [] | _ \<Rightarrow> [])"
  using assms
  by (cases a; auto simp: issued_def gen_next_def gen_throw_def gen_close_def finally_cancel_eq invoke_def
         split: if_splits option.splits prod.splits outcome.splits dest!: for_loop_result)+

lemma resume_yield:
  assumes "resume a g w = (Yield m, g1, w1)"
  shows "\<exists>mf. pc g1 = Suspended mf \<and> delivery_tag mf = msg_id m"
  using assms
  by (cases a; auto simp: gen_next_def gen_throw_def gen_close_def finally_cancel_eq invoke_def
           split: pc.splits if_splits option.splits prod.splits outcome.splits dest!: for_loop_result)

lemma resume_yield_feed:
  assumes "resume a g w = (Yield m, g1, w1)"
  shows "\<exists>mf h. feed w = Item (Some mf) h (data m) # feed w1 \<and> delivery_tag mf = msg_id m"
  using assms
  by (cases a; auto simp: gen_next_def gen_throw_def gen_close_def finally_cancel_eq invoke_def
           split: pc.splits if_splits option.splits prod.splits outcome.splits dest!: for_loop_result)

lemma resume_flags:
  assumes "resume a g w = (out, g1, w1)"
  shows "auto_ack g1 = auto_ack g \<and> propagate_error g1 = propagate_error g
         \<and> gen_queue g1 = gen_queue g \<and> timeout g1 = timeout g \<and> fails w1 = fails w"
  using assms
  by (cases a; auto simp: gen_next_def gen_throw_def gen_close_def finally_cancel_eq invoke_def
           split: pc.splits if_splits option.splits prod.splits outcome.splits dest!: for_loop_result)

lemma resume_finished:
  assumes "resume a g w = (out, g1, w1)" and "\<forall>m. out \<noteq> Yield m"
  shows "pc g1 = Done"
  using assms
  by (cases a; auto simp: gen_next_def gen_throw_def gen_close_def finally_cancel_eq invoke_def
           split: pc.splits if_splits option.splits prod.splits outcome.splits dest!: for_loop_result)

lemma first_next:
  assumes "gen_next g w = (out, g1, w1)" and "pc g = Created"
  shows "calls w1 = calls w @ issued w w1" and "acks (issued w w1) = []" and "nacks (issued w w1) = []"
  using assms
  by (auto simp: issued_def gen_next_def split: if_splits dest!: for_loop_result)

lemma step_cancel:
  assumes "resume a g w = (out, g1, w1)" and "pc g1 = Done"
      and "(\<exists>mf. pc g = Suspended mf) \<or> (pc g = Created \<and> a = Next \<and> channel (gen_queue g) \<noteq> None)"
  shows "last (calls w1) = Cancel"
  using assms
  by (cases a; auto simp: gen_next_def gen_throw_def gen_close_def finally_cancel_eq invoke_def
           split: pc.splits if_splits option.splits prod.splits outcome.splits dest!: for_loop_result)

lemma throw_propagates:
  assumes "resume (Throw e) g w = (out, g1, w1)" and "pc g = Suspended mf"
      and "is_Exception e" and "propagate_error g"
  shows "\<forall>m. out \<noteq> Yield m"
  using assms
  by (auto simp: gen_throw_def finally_cancel_eq invoke_def split: option.splits)

lemma create_pub_queue_connected:
  assumes "create_pub_queue a n w = (Inr q, w1)"
  shows "connection q = Some Connection \<and> channel q = Some Channel"
  using assms
  by (auto simp: create_pub_queue_def RabbitMQPub_connect_def connect_def invoke_def Let_def
           split: option.splits prod.splits)

subsection \<open>Runs\<close>

lemma drive_empty:
  assumes "drive as (out0, g0, w0) = ([], out, g1, w1)"
  shows "out = out0 \<and> g1 = g0 \<and> w1 = w0"
  using assms by (cases as; cases out0) (auto split: prod.splits)

lemma drive_log:
  assumes "drive as (out0, g0, w0) = (tr, out, g1, w1)"
      and "\<And>m. out0 = Yield m \<Longrightarrow> \<exists>mf. pc g0 = Suspended mf \<and> delivery_tag mf = msg_id m"
  shows "calls w1 = calls w0 @ issued w0 w1
       \<and> acks (issued w0 w1) = (if auto_ack g0 then returned tr else [])
       \<and> nacks (issued w0 w1) = raised_on tr"
  using assms
proof (induction as arbitrary: out0 g0 w0 tr)
  case Nil
  then show ?case by (simp add: issued_def)
next
  case (Cons a as)
  show ?case
  proof (cases "\<exists>m. out0 = Yield m")
    case False
    then have "drive (a # as) (out0, g0, w0) = ([], out0, g0, w0)"
      by (cases out0) auto
    with Cons.prems(1) show ?thesis by (simp add: issued_def)
  next
    case True
    then obtain m where m: "out0 = Yield m" by blast
    from Cons.prems(2)[OF m] obtain mf where mf: "pc g0 = Suspended mf" "delivery_tag mf = msg_id m"
      by blast
    obtain o' g' w' where r: "resume a g0 w0 = (o', g', w')" by (metis prod_cases3)
    obtain tr' where tr: "drive as (o', g', w') = (tr', out, g1, w1)" "tr = (m, a) # tr'"
      using Cons.prems(1) m r by (auto split: prod.splits)
    have IH: "calls w1 = calls w' @ issued w' w1
       \<and> acks (issued w' w1) = (if auto_ack g' then returned tr' else [])
       \<and> nacks (issued w' w1) = raised_on tr'"
      using Cons.IH[OF tr(1)] resume_yield r by blast
    note st = step_log[OF r mf(1)]
    have fl: "auto_ack g' = auto_ack g0" using resume_flags[OF r] by simp
    have iss: "issued w0 w1 = issued w0 w' @ issued w' w1"
      using st(1) IH by (metis append.assoc issued_eq)
    have c: "calls w1 = calls w0 @ issued w0 w1"
      using st(1) IH iss by (metis append.assoc)
    show ?thesis
      using c iss st(2,3) IH fl mf(2) tr(2)
      by (cases a) (auto simp: acks_append nacks_append)
  qed
qed

lemma drive_inv:
  assumes "drive as (out0, g0, w0) = (tr, out, g1, w1)"
      and "\<And>m. out0 = Yield m \<Longrightarrow> \<exists>mf. pc g0 = Suspended mf \<and> delivery_tag mf = msg_id m"
      and "(\<forall>m. out0 \<noteq> Yield m) \<Longrightarrow> pc g0 = Done"
      and "pc g0 = Done \<Longrightarrow> last (calls w0) = Cancel"
  shows "auto_ack g1 = auto_ack g0 \<and> propagate_error g1 = propagate_error g0
       \<and> gen_queue g1 = gen_queue g0 \<and> timeout g1 = timeout g0 \<and> fails w1 = fails w0
       \<and> (\<forall>m. out = Yield m \<longrightarrow> (\<exists>mf. pc g1 = Suspended mf \<and> delivery_tag mf = msg_id m))
       \<and> ((\<forall>m. out \<noteq> Yield m) \<longrightarrow> pc g1 = Done \<and> last (calls w1) = Cancel)
       \<and> map snd tr = take (length tr) as"
  using assms
proof (induction as arbitrary: out0 g0 w0 tr)
  case Nil
  then show ?case by auto
next
  case (Cons a as)
  show ?case
  proof (cases "\<exists>m. out0 = Yield m")
    case False
    then have "drive (a # as) (out0, g0, w0) = ([], out0, g0, w0)"
      by (cases out0) auto
    with Cons.prems False show ?thesis by auto
  next
    case True
    then obtain m where m: "out0 = Yield m" by blast
    from Cons.prems(2)[OF m] obtain mf where mf: "pc g0 = Suspended mf" "delivery_tag mf = msg_id m"
      by blast
    obtain o' g' w' where r: "resume a g0 w0 = (o', g', w')" by (metis prod_cases3)
    obtain tr' where tr: "drive as (o', g', w') = (tr', out, g1, w1)" "tr = (m, a) # tr'"
      using Cons.prems(1) m r by (auto split: prod.splits)
    have y: "\<And>m. o' = Yield m \<Longrightarrow> \<exists>mf. pc g' = Suspended mf \<and> delivery_tag mf = msg_id m"
      using resume_yield r by blast
    have f: "(\<forall>m. o' \<noteq> Yield m) \<Longrightarrow> pc g' = Done"
      using resume_finished[OF r] by blast
    have c: "pc g' = Done \<Longrightarrow> last (calls w') = Cancel"
      using step_cancel[OF r] mf(1) by blast
    from Cons.IH[OF tr(1) y f c] resume_flags[OF r] tr(2)
    show ?thesis by simp
  qed
qed

lemma run_inv:
  assumes "run g as w = (tr, out, g1, w1)" and "pc g = Created" and "channel (gen_queue g) \<noteq> None"
  shows "auto_ack g1 = auto_ack g \<and> propagate_error g1 = propagate_error g
       \<and> gen_queue g1 = gen_queue g \<and> timeout g1 = timeout g \<and> fails w1 = fails w
       \<and> (\<forall>m. out = Yield m \<longrightarrow> (\<exists>mf. pc g1 = Suspended mf \<and> delivery_tag mf = msg_id m))
       \<and> ((\<forall>m. out \<noteq> Yield m) \<longrightarrow> pc g1 = Done \<and> last (calls w1) = Cancel)
       \<and> map snd tr = take (length tr) as"
proof -
  obtain o' g' w' where r: "resume Next g w = (o', g', w')" by (metis prod_cases3)
  then have d: "drive as (o', g', w') = (tr, out, g1, w1)"
    using assms(1) by (simp add: run_def)
  have y: "\<And>m. o' = Yield m \<Longrightarrow> \<exists>mf. pc g' = Suspended mf \<and> delivery_tag mf = msg_id m"
    using resume_yield r by blast
  have f: "(\<forall>m. o' \<noteq> Yield m) \<Longrightarrow> pc g' = Done"
    using resume_finished[OF r] by blast
  have c: "pc g' = Done \<Longrightarrow> last (calls w') = Cancel"
    using step_cancel[OF r] assms(2,3) by blast
  from drive_inv[OF d y f c] resume_flags[OF r] show ?thesis by simp
qed

lemma run_log:
  assumes "run g as w = (tr, out, g1, w1)" and "pc g = Created"
  shows "calls w1 = calls w @ issued w w1"
    and "acks (issued w w1) = (if auto_ack g then returned tr else [])"
    and "nacks (issued w w1) = raised_on tr"
proof -
  obtain o' g' w' where r: "resume Next g w = (o', g', w')" by (metis prod_cases3)
  then have d: "drive as (o', g', w') = (tr, out, g1, w1)"
    using assms(1) by (simp add: run_def)
  have y: "\<And>m. o' = Yield m \<Longrightarrow> \<exists>mf. pc g' = Suspended mf \<and> delivery_tag mf = msg_id m"
    using resume_yield r by blast
  note dl = drive_log[OF d y]
  from r have n: "gen_next g w = (o', g', w')" by simp
  note fn = first_next[OF n assms(2)]
  have fl: "auto_ack g' = auto_ack g" using resume_flags[OF r] by simp
  have iss: "issued w w1 = issued w w' @ issued w' w1"
    using fn(1) dl by (metis append.assoc issued_eq)
  show "calls w1 = calls w @ issued w w1"
    using fn(1) dl iss by (metis append.assoc)
  show "acks (issued w w1) = (if auto_ack g then returned tr else [])"
    using iss fn(2) dl fl by (simp add: acks_append)
  show "nacks (issued w w1) = raised_on tr"
    using iss fn(3) dl by (simp add: nacks_append)
qed

lemma drive_last_throw:
  assumes "drive as (out0, g0, w0) = (tr, out, g1, w1)"
      and "\<And>m. out0 = Yield m \<Longrightarrow> \<exists>mf. pc g0 = Suspended mf \<and> delivery_tag mf = msg_id m"
      and "tr \<noteq> []" and "snd (last tr) = Throw e" and "is_Exception e" and "propagate_error g0"
  shows "\<forall>m. out \<noteq> Yield m"
  using assms
proof (induction as arbitrary: out0 g0 w0 tr)
  case Nil
  then show ?case by simp
next
  case (Cons a as)
  show ?case
  proof (cases "\<exists>m. out0 = Yield m")
    case False
    then have "drive (a # as) (out0, g0, w0) = ([], out0, g0, w0)"
      by (cases out0) auto
    with Cons.prems show ?thesis by simp
  next
    case True
    then obtain m where m: "out0 = Yield m" by blast
    from Cons.prems(2)[OF m] obtain mf where mf: "pc g0 = Suspended mf" by blast
    obtain o' g' w' where r: "resume a g0 w0 = (o', g', w')" by (metis prod_cases3)
    obtain tr' where tr: "drive as (o', g', w') = (tr', out, g1, w1)" "tr = (m, a) # tr'"
      using Cons.prems(1) m r by (auto split: prod.splits)
    have y: "\<And>m. o' = Yield m \<Longrightarrow> \<exists>mf. pc g' = Suspended mf \<and> delivery_tag mf = msg_id m"
      using resume_yield r by blast
    show ?thesis
    proof (cases "tr' = []")
      case True
      with tr Cons.prems(4) have a: "a = Throw e" by simp
      from True tr(1) have "out = o'" using drive_empty by blast
      with throw_propagates[OF r[unfolded a] mf Cons.prems(5,6)] show ?thesis by simp
    next
      case False
      with tr(2) Cons.prems(4) have l: "snd (last tr') = Throw e" by simp
      have "propagate_error g'" using resume_flags[OF r] Cons.prems(6) by simp
      from Cons.IH[OF tr(1) y False l Cons.prems(5) this] show ?thesis .
    qed
  qed
qed

lemma run_last_throw:
  assumes "run g as w = (tr, out, g1, w1)"
      and "tr \<noteq> []" and "snd (last tr) = Throw e" and "is_Exception e" and "propagate_error g"
  shows "\<forall>m. out \<noteq> Yield m"
proof -
  obtain o' g' w' where r: "resume Next g w = (o', g', w')" by (metis prod_cases3)
  then have d: "drive as (o', g', w') = (tr, out, g1, w1)"
    using assms(1) by (simp add: run_def)
  have y: "\<And>m. o' = Yield m \<Longrightarrow> \<exists>mf. pc g' = Suspended mf \<and> delivery_tag mf = msg_id m"
    using resume_yield r by blast
  have "propagate_error g'" using resume_flags[OF r] assms(5) by simp
  from drive_last_throw[OF d y assms(2,3,4) this] show ?thesis .
qed

lemma run_unconnected:
  assumes "pc g = Created" and "channel (gen_queue g) = None"
  shows "run g as w = ([], Raise not_connected, g\<lparr>pc := Done\<rparr>, w)"
  using assms by (cases as) (simp_all add: run_def gen_next_def)

lemma returned_all_next:
  "\<forall>x\<in>set tr. snd x = Next \<Longrightarrow> returned tr = map (msg_id \<circ> fst) tr \<and> raised_on tr = []"
  by (induction tr) auto

lemma butlast_script:
  assumes "map snd tr = replicate n Next @ [Throw e]" and "is_Exception e"
  shows "returned tr = map (msg_id \<circ> fst) (butlast tr) \<and> raised_on tr = [msg_id (fst (last tr))]"
  using assms
proof (induction n arbitrary: tr)
  case 0
  then obtain m where "tr = [(m, Throw e)]" by (cases tr) auto
  with 0 show ?case by simp
next
  case (Suc n)
  then obtain m tr' where tr: "tr = (m, Next) # tr'" "map snd tr' = replicate n Next @ [Throw e]"
    by (cases tr) auto
  then have "tr' \<noteq> []" by auto
  with Suc.IH[OF tr(2) Suc.prems(2)] tr show ?case by simp
qed

subsection \<open>The claims\<close>

text \<open>
  Claim C1. Take any run of a generator created with \<open>auto_ack\<close> true. The acks issued
  to the library during the run are exactly, in order, the identifiers of the yielded
  messages from whose \<^verbatim>\<open>yield\<close> the caller came back with \<^verbatim>\<open>next\<close>: a message the
  caller answered by throwing, or by closing the generator, is not acked. In particular,
  when the run ends with \<^verbatim>\<open>StopIteration\<close> and the caller came back from every one of
  the \<open>k\<close> yielded messages, \<open>k\<close> acks and no nack were issued.
\<close>

theorem auto_ack_acks_what_caller_returned_from:
  assumes "auto_ack g" and "pc g = Created" and "run g as w = (tr, out, g1, w1)"
  shows "calls w1 = calls w @ issued w w1
       \<and> acks (issued w w1) = returned tr
       \<and> (out = StopIteration \<and> (\<forall>x\<in>set tr. snd x = Next) \<longrightarrow>
            length (acks (issued w w1)) = length tr \<and> nacks (issued w w1) = [])"
  using run_log[OF assms(3,2)] assms(1) returned_all_next[of tr] by auto

theorem auto_ack_acks_what_caller_returned_from_witness:
  "auto_ack (message_generator connected_sub 1 None None)
   \<and> pc (message_generator connected_sub 1 None None) = Created
   \<and> run (message_generator connected_sub 1 None None) [Next, Next, Next, Next]
         (mock_con (three_messages @ [Item None [] []]))
       = ([(\<lparr>msg_id = 0, data = ''baz-0''\<rparr>, Next), (\<lparr>msg_id = 1, data = ''baz-1''\<rparr>, Next),
           (\<lparr>msg_id = 2, data = ''baz-2''\<rparr>, Next)],
          StopIteration,
          (message_generator connected_sub 1 None None)\<lparr>pc := Done\<rparr>,
          (mock_con [])\<lparr>calls := [Consume ''q'' 1, BasicAck 0, BasicAck 1, BasicAck 2, Cancel]\<rparr>)
   \<and> acks [Consume ''q'' 1, BasicAck 0, BasicAck 1, BasicAck 2, Cancel] = [0, 1, 2]
   \<and> nacks [Consume ''q'' 1, BasicAck 0, BasicAck 1, BasicAck 2, Cancel] = []"
proof -
  have r: "run (message_generator connected_sub 1 None None) [Next, Next, Next, Next]
         (mock_con (three_messages @ [Item None [] []]))
       = ([(\<lparr>msg_id = 0, data = ''baz-0''\<rparr>, Next), (\<lparr>msg_id = 1, data = ''baz-1''\<rparr>, Next),
           (\<lparr>msg_id = 2, data = ''baz-2''\<rparr>, Next)],
          StopIteration,
          (message_generator connected_sub 1 None None)\<lparr>pc := Done\<rparr>,
          (mock_con [])\<lparr>calls := [Consume ''q'' 1, BasicAck 0, BasicAck 1, BasicAck 2, Cancel]\<rparr>)"
    by (simp add: example_defs gen_defs)
  have a: "auto_ack (message_generator connected_sub 1 None None)"
    and p: "pc (message_generator connected_sub 1 None None) = Created"
    by (simp_all add: message_generator_def)
  from auto_ack_acks_what_caller_returned_from[OF a p r] r a p show ?thesis
    by (simp add: issued_def mock_con_def)
qed

text \<open>
  Claim C2. Let message \<open>m\<close> be in flight: an operation has just yielded it. When the
  caller throws an exception \<open>e\<close> (an instance of \<^verbatim>\<open>Exception\<close>, which is what the
  handler of line 135 catches) into the generator, the first call the generator issues
  is \<^verbatim>\<open>basic_nack\<close> of \<open>m\<close>; it is the only nack, and no ack is issued. Neither
  \<open>propagate_error\<close> nor \<open>auto_ack\<close> is constrained.
\<close>

theorem caller_exception_nacks_in_flight:
  assumes "resume a g0 w0 = (Yield m, g, w)" and "is_Exception e"
      and "gen_throw g e w = (out, g1, w1)"
  shows "calls w1 = calls w @ issued w w1 \<and> take 1 (issued w w1) = [BasicNack (msg_id m)]
       \<and> nacks (issued w w1) = [msg_id m] \<and> acks (issued w w1) = []"
proof -
  obtain mf where mf: "pc g = Suspended mf" "delivery_tag mf = msg_id m"
    using resume_yield[OF assms(1)] by blast
  from assms(3) have r: "resume (Throw e) g w = (out, g1, w1)" by simp
  have t: "take 1 (issued w w1) = [BasicNack (msg_id m)]"
    using assms(2,3) mf
    by (auto simp: issued_def gen_throw_def finally_cancel_eq invoke_def
             split: if_splits option.splits dest!: for_loop_result)
  show ?thesis using step_log[OF r mf(1)] assms(2) mf(2) t by simp
qed

theorem caller_exception_nacks_in_flight_witness:
  "resume Next (message_generator connected_sub 1 None None) (mock_con three_messages)
     = (Yield \<lparr>msg_id = 0, data = ''baz-0''\<rparr>,
        (message_generator connected_sub 1 None None)\<lparr>pc := Suspended (Method 0)\<rparr>,
        (mock_con (tl three_messages))\<lparr>calls := [Consume ''q'' 1]\<rparr>)
   \<and> is_Exception (Exception ''boom'')
   \<and> gen_throw ((message_generator connected_sub 1 None None)\<lparr>pc := Suspended (Method 0)\<rparr>)
        (Exception ''boom'') ((mock_con (tl three_messages))\<lparr>calls := [Consume ''q'' 1]\<rparr>)
     = (Raise (Exception ''boom''),
        (message_generator connected_sub 1 None None)\<lparr>pc := Done\<rparr>,
        (mock_con (tl three_messages))\<lparr>calls := [Consume ''q'' 1, BasicNack 0, Cancel]\<rparr>)
   \<and> issued ((mock_con (tl three_messages))\<lparr>calls := [Consume ''q'' 1]\<rparr>)
        ((mock_con (tl three_messages))\<lparr>calls := [Consume ''q'' 1, BasicNack 0, Cancel]\<rparr>)
     = [BasicNack 0, Cancel]
   \<and> nacks [BasicNack 0, Cancel] = [0] \<and> acks [BasicNack 0, Cancel] = []"
proof -
  have r: "resume Next (message_generator connected_sub 1 None None) (mock_con three_messages)
     = (Yield \<lparr>msg_id = 0, data = ''baz-0''\<rparr>,
        (message_generator connected_sub 1 None None)\<lparr>pc := Suspended (Method 0)\<rparr>,
        (mock_con (tl three_messages))\<lparr>calls := [Consume ''q'' 1]\<rparr>)"
    by (simp add: example_defs gen_defs)
  have e: "is_Exception (Exception ''boom'')" by simp
  have t: "gen_throw ((message_generator connected_sub 1 None None)\<lparr>pc := Suspended (Method 0)\<rparr>)
        (Exception ''boom'') ((mock_con (tl three_messages))\<lparr>calls := [Consume ''q'' 1]\<rparr>)
     = (Raise (Exception ''boom''),
        (message_generator connected_sub 1 None None)\<lparr>pc := Done\<rparr>,
        (mock_con (tl three_messages))\<lparr>calls := [Consume ''q'' 1, BasicNack 0, Cancel]\<rparr>)"
    by (simp add: example_defs gen_defs)
  from caller_exception_nacks_in_flight[OF r e t] r e t show ?thesis
    by (simp add: issued_def)
qed

text \<open>
  Claim C3. The claim, and the unit test \<^verbatim>\<open>test_message_generator_suppress_error\<close>
  with it, have the caller's next iteration receive the message that follows the nacked
  one. Here a generator with \<open>propagate_error\<close> false runs on a stream of the messages 0,
  1 and 2. The caller is handed message 0 and throws an exception. The \<^verbatim>\<open>throw\<close> nacks
  message 0, logs the exception and does not raise, the generator stays alive; but the
  \<^verbatim>\<open>throw\<close> itself takes message 1 off the stream and returns it. The caller's next
  iteration, \<^verbatim>\<open>next\<close>, then acks message 1, which no iteration was handed, and yields
  message 2.
\<close>

theorem suppressed_throw_takes_the_next_message:
  "resume Next (message_generator connected_sub 1 None (Some False)) (mock_con three_messages)
     = (Yield \<lparr>msg_id = 0, data = ''baz-0''\<rparr>,
        (message_generator connected_sub 1 None (Some False))\<lparr>pc := Suspended (Method 0)\<rparr>,
        (mock_con (tl three_messages))\<lparr>calls := [Consume ''q'' 1]\<rparr>)
   \<and> gen_throw ((message_generator connected_sub 1 None (Some False))\<lparr>pc := Suspended (Method 0)\<rparr>)
        (Exception ''boom'') ((mock_con (tl three_messages))\<lparr>calls := [Consume ''q'' 1]\<rparr>)
     = (Yield \<lparr>msg_id = 1, data = ''baz-1''\<rparr>,
        (message_generator connected_sub 1 None (Some False))\<lparr>pc := Suspended (Method 1)\<rparr>,
        (mock_con [Item (Some (Method 2)) [] ''baz-2''])
          \<lparr>calls := [Consume ''q'' 1, BasicNack 0], warnings := [Exception ''boom'']\<rparr>)
   \<and> gen_next ((message_generator connected_sub 1 None (Some False))\<lparr>pc := Suspended (Method 1)\<rparr>)
        ((mock_con [Item (Some (Method 2)) [] ''baz-2''])
          \<lparr>calls := [Consume ''q'' 1, BasicNack 0], warnings := [Exception ''boom'']\<rparr>)
     = (Yield \<lparr>msg_id = 2, data = ''baz-2''\<rparr>,
        (message_generator connected_sub 1 None (Some False))\<lparr>pc := Suspended (Method 2)\<rparr>,
        (mock_con [])
          \<lparr>calls := [Consume ''q'' 1, BasicNack 0, BasicAck 1], warnings := [Exception ''boom'']\<rparr>)"
  by (simp add: example_defs gen_defs)

text \<open>
  Claim C4. With \<open>auto_ack\<close> and \<open>propagate_error\<close> true, let the caller come back
  from the first \<open>k - 1\<close> yielded messages and throw an instance of \<^verbatim>\<open>Exception\<close> at
  the \<open>k\<close>-th. When the generator has finished, the acks issued are those of the
  messages \<open>1\<close> to \<open>k - 1\<close>, \<open>k - 1\<close> of them, the only nack issued is that of message
  \<open>k\<close>, and the last call was \<^verbatim>\<open>cancel\<close>.
\<close>

theorem raise_on_kth_yield_counts:
  assumes "auto_ack g" and "propagate_error g" and "pc g = Created" and "is_Exception e"
      and "0 < k"
      and "run g (replicate (k - 1) Next @ [Throw e]) w = (tr, out, g1, w1)"
      and "length tr = k"
  shows "calls w1 = calls w @ issued w w1
       \<and> acks (issued w w1) = map (msg_id \<circ> fst) (butlast tr)
       \<and> length (acks (issued w w1)) = k - 1
       \<and> nacks (issued w w1) = [msg_id (fst (last tr))]
       \<and> pc g1 = Done \<and> last (calls w1) = Cancel"
proof -
  have ch: "channel (gen_queue g) \<noteq> None"
  proof
    assume "channel (gen_queue g) = None"
    then have "run g (replicate (k - 1) Next @ [Throw e]) w = ([], Raise not_connected, g\<lparr>pc := Done\<rparr>, w)"
      using assms(3) by (simp add: run_def gen_next_def)
    with assms(5,6,7) show False by simp
  qed
  note inv = run_inv[OF assms(6,3) ch]
  from inv assms(5,7) have s: "map snd tr = replicate (k - 1) Next @ [Throw e]" by simp
  note bl = butlast_script[OF s assms(4)]
  note lg = run_log[OF assms(6,3)]
  have ne: "tr \<noteq> []" using assms(5,7) by auto
  have lastact: "snd (last tr) = Throw e"
    using s ne by (metis last_map last_snoc)
  have fin: "\<forall>m. out \<noteq> Yield m"
    using run_last_throw[OF assms(6) ne lastact assms(4,2)] .
  show ?thesis using lg bl inv fin assms(1,7) by simp
qed

theorem raise_on_kth_yield_counts_witness:
  "auto_ack (message_generator connected_sub 1 None None)
   \<and> propagate_error (message_generator connected_sub 1 None None)
   \<and> pc (message_generator connected_sub 1 None None) = Created
   \<and> is_Exception (Exception ''boom'') \<and> (0::nat) < 3
   \<and> run (message_generator connected_sub 1 None None)
         (replicate (3 - 1) Next @ [Throw (Exception ''boom'')]) (mock_con three_messages)
       = ([(\<lparr>msg_id = 0, data = ''baz-0''\<rparr>, Next), (\<lparr>msg_id = 1, data = ''baz-1''\<rparr>, Next),
           (\<lparr>msg_id = 2, data = ''baz-2''\<rparr>, Throw (Exception ''boom''))],
          Raise (Exception ''boom''),
          (message_generator connected_sub 1 None None)\<lparr>pc := Done\<rparr>,
          (mock_con [])\<lparr>calls := [Consume ''q'' 1, BasicAck 0, BasicAck 1, BasicNack 2, Cancel]\<rparr>)
   \<and> acks (issued (mock_con three_messages)
        ((mock_con [])\<lparr>calls := [Consume ''q'' 1, BasicAck 0, BasicAck 1, BasicNack 2, Cancel]\<rparr>))
       = [0, 1]
   \<and> nacks (issued (mock_con three_messages)
        ((mock_con [])\<lparr>calls := [Consume ''q'' 1, BasicAck 0, BasicAck 1, BasicNack 2, Cancel]\<rparr>))
       = [2]"
proof -
  have a: "auto_ack (message_generator connected_sub 1 None None)"
    and q: "propagate_error (message_generator connected_sub 1 None None)"
    and p: "pc (message_generator connected_sub 1 None None) = Created"
    by (simp_all add: message_generator_def)
  have e: "is_Exception (Exception ''boom'')" by simp
  have k: "(0::nat) < 3" by simp
  have rp: "replicate (3 - 1) Next = [Next, Next]" by (simp add: numeral_3_eq_3)
  have r: "run (message_generator connected_sub 1 None None)
         (replicate (3 - 1) Next @ [Throw (Exception ''boom'')]) (mock_con three_messages)
       = ([(\<lparr>msg_id = 0, data = ''baz-0''\<rparr>, Next), (\<lparr>msg_id = 1, data = ''baz-1''\<rparr>, Next),
           (\<lparr>msg_id = 2, data = ''baz-2''\<rparr>, Throw (Exception ''boom''))],
          Raise (Exception ''boom''),
          (message_generator connected_sub 1 None None)\<lparr>pc := Done\<rparr>,
          (mock_con [])\<lparr>calls := [Consume ''q'' 1, BasicAck 0, BasicAck 1, BasicNack 2, Cancel]\<rparr>)"
    unfolding rp by (simp add: example_defs gen_defs)
  have l: "length [(\<lparr>msg_id = 0, data = ''baz-0''\<rparr>, Next), (\<lparr>msg_id = 1, data = ''baz-1''\<rparr>, Next),
           (\<lparr>msg_id = 2, data = ''baz-2''\<rparr>, Throw (Exception ''boom''))] = 3" by simp
  from raise_on_kth_yield_counts[OF a q p e k r l] a q p e k r show ?thesis
    by simp
qed

text \<open>
  Claim C5 says that an error of the stream always reaches the caller. It does not when
  \<^verbatim>\<open>cancel\<close> raises in the \<^verbatim>\<open>finally\<close> clause: the stream raises
  \<^verbatim>\<open>Exception('upstream')\<close>, \<^verbatim>\<open>cancel\<close> raises the library's error, and the caller
  gets the error of \<^verbatim>\<open>cancel\<close>.
\<close>

theorem upstream_error_replaced_by_cancel_error:
  "resume Next (message_generator connected_sub 1 None None)
       ((mock_con [StreamRaises (Exception ''upstream'')])\<lparr>fails := cancel_fails\<rparr>)
     = (Raise (Exception ''Channel is closed.''),
        (message_generator connected_sub 1 None None)\<lparr>pc := Done\<rparr>,
        (mock_con [])\<lparr>fails := cancel_fails, calls := [Consume ''q'' 1, Cancel]\<rparr>)
   \<and> Raise (Exception ''Channel is closed.'') \<noteq> Raise (Exception ''upstream'')"
  by (simp add: example_defs gen_defs)

text \<open>
  Claim C5, amended. First: let an operation take an item off the stream, and let that
  item be the stream raising an error \<open>e\<close> (not \<^verbatim>\<open>StopIteration\<close>, which is the stream
  coming to its end). Then the generator has finished, its last call was \<^verbatim>\<open>cancel\<close>, and
  the operation raises \<open>e\<close> to the caller when \<^verbatim>\<open>cancel\<close> returned, and the error of
  \<^verbatim>\<open>cancel\<close> when it raised; \<open>propagate_error\<close> plays no part. Second: whenever a run
  of a generator on a connected handle has ended (with \<^verbatim>\<open>StopIteration\<close>, with an
  exception of the stream, of the library or of the caller, or by \<^verbatim>\<open>close\<close>), the
  generator has finished and the last call issued was \<^verbatim>\<open>cancel\<close>.
\<close>

theorem upstream_error_propagates_and_cancels:
  "(resume a g w = (out, g1, w1) \<and> feed w = StreamRaises e # rest \<and> feed w1 = rest
      \<and> e \<noteq> StopIteration_exn
    \<longrightarrow> pc g1 = Done \<and> last (calls w1) = Cancel
        \<and> out = (case fails w (butlast (calls w1)) Cancel of
                   None \<Rightarrow> Raise e | Some e1 \<Rightarrow> leave (Raise e1)))
 \<and> (run g0 as w0 = (tr, out', g', w') \<and> pc g0 = Created \<and> channel (gen_queue g0) \<noteq> None
      \<and> (\<forall>m. out' \<noteq> Yield m)
    \<longrightarrow> pc g' = Done \<and> last (calls w') = Cancel)"
proof (intro conjI impI)
  assume h: "resume a g w = (out, g1, w1) \<and> feed w = StreamRaises e # rest \<and> feed w1 = rest
      \<and> e \<noteq> StopIteration_exn"
  then have r: "resume a g w = (out, g1, w1)" and f: "feed w = StreamRaises e # rest"
    and x: "e \<noteq> StopIteration_exn" and t: "feed w1 \<noteq> feed w"
    by simp_all
  have "pc g1 = Done \<and> last (calls w1) = Cancel
        \<and> out = (case fails w (butlast (calls w1)) Cancel of
                   None \<Rightarrow> Raise e | Some e1 \<Rightarrow> leave (Raise e1))"
    using r f x t
    by (cases a; cases "pc g")
       (auto simp: gen_next_def gen_throw_def gen_close_def for_loop_def finally_cancel_eq
                   invoke_def butlast_append
             split: if_splits option.splits outcome.splits prod.splits)
  then show "pc g1 = Done" "last (calls w1) = Cancel"
    "out = (case fails w (butlast (calls w1)) Cancel of
              None \<Rightarrow> Raise e | Some e1 \<Rightarrow> leave (Raise e1))"
    by simp_all
next
  assume h: "run g0 as w0 = (tr, out', g', w') \<and> pc g0 = Created \<and> channel (gen_queue g0) \<noteq> None
      \<and> (\<forall>m. out' \<noteq> Yield m)"
  then have r: "run g0 as w0 = (tr, out', g', w')" and p: "pc g0 = Created"
    and c: "channel (gen_queue g0) \<noteq> None" and f: "\<forall>m. out' \<noteq> Yield m" by simp_all
  from run_inv[OF r p c] f show "pc g' = Done" "last (calls w') = Cancel" by simp_all
qed

theorem upstream_error_propagates_and_cancels_witness:
  "resume Next (message_generator connected_sub 1 None (Some False))
       (mock_con [StreamRaises (Exception ''upstream'')])
     = (Raise (Exception ''upstream''),
        (message_generator connected_sub 1 None (Some False))\<lparr>pc := Done\<rparr>,
        (mock_con [])\<lparr>calls := [Consume ''q'' 1, Cancel]\<rparr>)
   \<and> feed (mock_con [StreamRaises (Exception ''upstream'')]) = StreamRaises (Exception ''upstream'') # []
   \<and> feed ((mock_con [])\<lparr>calls := [Consume ''q'' 1, Cancel]\<rparr>) = []
   \<and> Exception ''upstream'' \<noteq> StopIteration_exn
   \<and> fails (mock_con [StreamRaises (Exception ''upstream'')]) [Consume ''q'' 1] Cancel = None
   \<and> run (message_generator connected_sub 1 None None) [Next, Throw (Exception ''boom'')]
         (mock_con three_messages)
       = ([(\<lparr>msg_id = 0, data = ''baz-0''\<rparr>, Next),
           (\<lparr>msg_id = 1, data = ''baz-1''\<rparr>, Throw (Exception ''boom''))],
          Raise (Exception ''boom''),
          (message_generator connected_sub 1 None None)\<lparr>pc := Done\<rparr>,
          (mock_con [Item (Some (Method 2)) [] ''baz-2''])
            \<lparr>calls := [Consume ''q'' 1, BasicAck 0, BasicNack 1, Cancel]\<rparr>)
   \<and> pc (message_generator connected_sub 1 None None) = Created
   \<and> channel (gen_queue (message_generator connected_sub 1 None None)) \<noteq> None
   \<and> last [Consume ''q'' 1, Cancel] = Cancel
   \<and> last [Consume ''q'' 1, BasicAck 0, BasicNack 1, Cancel] = Cancel"
proof -
  have s: "resume Next (message_generator connected_sub 1 None (Some False))
       (mock_con [StreamRaises (Exception ''upstream'')])
     = (Raise (Exception ''upstream''),
        (message_generator connected_sub 1 None (Some False))\<lparr>pc := Done\<rparr>,
        (mock_con [])\<lparr>calls := [Consume ''q'' 1, Cancel]\<rparr>)"
    by (simp add: example_defs gen_defs)
  have d: "feed (mock_con [StreamRaises (Exception ''upstream'')]) = StreamRaises (Exception ''upstream'') # []"
    and d1: "feed ((mock_con [])\<lparr>calls := [Consume ''q'' 1, Cancel]\<rparr>) = []"
    and n: "fails (mock_con [StreamRaises (Exception ''upstream'')]) [Consume ''q'' 1] Cancel = None"
    by (simp_all add: example_defs)
  have x: "Exception ''upstream'' \<noteq> StopIteration_exn" by simp
  have r: "run (message_generator connected_sub 1 None None) [Next, Throw (Exception ''boom'')]
         (mock_con three_messages)
       = ([(\<lparr>msg_id = 0, data = ''baz-0''\<rparr>, Next),
           (\<lparr>msg_id = 1, data = ''baz-1''\<rparr>, Throw (Exception ''boom''))],
          Raise (Exception ''boom''),
          (message_generator connected_sub 1 None None)\<lparr>pc := Done\<rparr>,
          (mock_con [Item (Some (Method 2)) [] ''baz-2''])
            \<lparr>calls := [Consume ''q'' 1, BasicAck 0, BasicNack 1, Cancel]\<rparr>)"
    by (simp add: example_defs gen_defs)
  have p: "pc (message_generator connected_sub 1 None None) = Created"
    and c: "channel (gen_queue (message_generator connected_sub 1 None None)) \<noteq> None"
    by (simp_all add: example_defs)
  from upstream_error_propagates_and_cancels[where a = Next
        and g = "message_generator connected_sub 1 None (Some False)"
        and w = "mock_con [StreamRaises (Exception ''upstream'')]"
        and out = "Raise (Exception ''upstream'')"
        and ?g1.0 = "(message_generator connected_sub 1 None (Some False))\<lparr>pc := Done\<rparr>"
        and ?w1.0 = "(mock_con [])\<lparr>calls := [Consume ''q'' 1, Cancel]\<rparr>"
        and e = "Exception ''upstream''" and rest = "[]"
        and ?g0.0 = "message_generator connected_sub 1 None None"
        and as = "[Next, Throw (Exception ''boom'')]" and ?w0.0 = "mock_con three_messages"
        and tr = "[(\<lparr>msg_id = 0, data = ''baz-0''\<rparr>, Next),
           (\<lparr>msg_id = 1, data = ''baz-1''\<rparr>, Throw (Exception ''boom''))]"
        and out' = "Raise (Exception ''boom'')"
        and g' = "(message_generator connected_sub 1 None None)\<lparr>pc := Done\<rparr>"
        and w' = "(mock_con [Item (Some (Method 2)) [] ''baz-2''])
            \<lparr>calls := [Consume ''q'' 1, BasicAck 0, BasicNack 1, Cancel]\<rparr>"]
    s d d1 n x r p c
  show ?thesis by simp
qed

text \<open>
  Claim C6 says that \<open>propagate_error\<close> defaults to false. In the source the default is
  \<^verbatim>\<open>True\<close>: a generator created without the argument re-raises the exception the
  caller throws at the first message.
\<close>

theorem default_propagate_error_not_false:
  "propagate_error (message_generator connected_sub 1 None None)
   \<and> run (message_generator connected_sub 1 None None) [Throw (Exception ''boom'')]
         (mock_con three_messages)
       = ([(\<lparr>msg_id = 0, data = ''baz-0''\<rparr>, Throw (Exception ''boom''))],
          Raise (Exception ''boom''),
          (message_generator connected_sub 1 None None)\<lparr>pc := Done\<rparr>,
          (mock_con (tl three_messages))\<lparr>calls := [Consume ''q'' 1, BasicNack 0, Cancel]\<rparr>)"
  by (simp add: example_defs gen_defs)

text \<open>
  Claim C6, amended. When the caller leaves \<open>propagate_error\<close> out, it is true. With a
  message \<open>m\<close> in flight after any run of such a generator, a thrown instance of
  \<^verbatim>\<open>Exception\<close> is never suppressed: the generator issues \<^verbatim>\<open>basic_nack\<close> of \<open>m\<close> and
  \<^verbatim>\<open>cancel\<close>, has finished, and the \<^verbatim>\<open>throw\<close> raises. When the nack and the cancel
  return, what it raises is the caller's exception, except that a thrown
  \<^verbatim>\<open>StopIteration\<close> arrives as \<^verbatim>\<open>RuntimeError('generator raised StopIteration')\<close>.
\<close>

theorem default_propagate_error_reraises:
  assumes "run (message_generator q t aa None) as w0 = (tr, Yield m, g, w)"
      and "is_Exception e"
      and "gen_throw g e w = (out, g1, w1)"
  shows "propagate_error (message_generator q t aa None)
       \<and> calls w1 = calls w @ [BasicNack (msg_id m), Cancel] \<and> pc g1 = Done
       \<and> (\<exists>e1. out = Raise e1)
       \<and> (fails w (calls w) (BasicNack (msg_id m)) = None
            \<and> fails w (calls w @ [BasicNack (msg_id m)]) Cancel = None
          \<longrightarrow> out = (if e = StopIteration_exn
                       then Raise (RuntimeError ''generator raised StopIteration'')
                       else Raise e))"
proof -
  let ?g0 = "message_generator q t aa None"
  have p: "pc ?g0 = Created" and d: "propagate_error ?g0"
    by (simp_all add: message_generator_def)
  have c: "channel (gen_queue ?g0) \<noteq> None"
  proof
    assume "channel (gen_queue ?g0) = None"
    from run_unconnected[OF p this] assms(1) show False by simp
  qed
  from run_inv[OF assms(1) p c] d obtain mf where
    mf: "pc g = Suspended mf" "delivery_tag mf = msg_id m" and pe: "propagate_error g"
    by auto
  have "calls w1 = calls w @ [BasicNack (msg_id m), Cancel] \<and> pc g1 = Done
       \<and> (\<exists>e1. out = Raise e1)
       \<and> (fails w (calls w) (BasicNack (msg_id m)) = None
            \<and> fails w (calls w @ [BasicNack (msg_id m)]) Cancel = None
          \<longrightarrow> out = (if e = StopIteration_exn
                       then Raise (RuntimeError ''generator raised StopIteration'')
                       else Raise e))"
    using mf pe assms(2,3)
    by (auto simp: gen_throw_def invoke_def finally_cancel_def leave_def split: option.splits)
  with d show ?thesis by simp
qed

theorem default_propagate_error_reraises_witness:
  "run (message_generator connected_sub 1 None None) [] (mock_con three_messages)
     = ([], Yield \<lparr>msg_id = 0, data = ''baz-0''\<rparr>,
        (message_generator connected_sub 1 None None)\<lparr>pc := Suspended (Method 0)\<rparr>,
        (mock_con (tl three_messages))\<lparr>calls := [Consume ''q'' 1]\<rparr>)
   \<and> is_Exception (Exception ''boom'')
   \<and> fails ((mock_con (tl three_messages))\<lparr>calls := [Consume ''q'' 1]\<rparr>) [Consume ''q'' 1]
        (BasicNack 0) = None
   \<and> fails ((mock_con (tl three_messages))\<lparr>calls := [Consume ''q'' 1]\<rparr>)
        [Consume ''q'' 1, BasicNack 0] Cancel = None
   \<and> propagate_error (message_generator connected_sub 1 None None)
   \<and> gen_throw ((message_generator connected_sub 1 None None)\<lparr>pc := Suspended (Method 0)\<rparr>)
        (Exception ''boom'') ((mock_con (tl three_messages))\<lparr>calls := [Consume ''q'' 1]\<rparr>)
     = (Raise (Exception ''boom''),
        (message_generator connected_sub 1 None None)\<lparr>pc := Done\<rparr>,
        (mock_con (tl three_messages))\<lparr>calls := [Consume ''q'' 1, BasicNack 0, Cancel]\<rparr>)
   \<and> is_Exception StopIteration_exn
   \<and> gen_throw ((message_generator connected_sub 1 None None)\<lparr>pc := Suspended (Method 0)\<rparr>)
        StopIteration_exn ((mock_con (tl three_messages))\<lparr>calls := [Consume ''q'' 1]\<rparr>)
     = (Raise (RuntimeError ''generator raised StopIteration''),
        (message_generator connected_sub 1 None None)\<lparr>pc := Done\<rparr>,
        (mock_con (tl three_messages))\<lparr>calls := [Consume ''q'' 1, BasicNack 0, Cancel]\<rparr>)"
proof -
  have r: "run (message_generator connected_sub 1 None None) [] (mock_con three_messages)
     = ([], Yield \<lparr>msg_id = 0, data = ''baz-0''\<rparr>,
        (message_generator connected_sub 1 None None)\<lparr>pc := Suspended (Method 0)\<rparr>,
        (mock_con (tl three_messages))\<lparr>calls := [Consume ''q'' 1]\<rparr>)"
    by (simp add: example_defs gen_defs)
  have e: "is_Exception (Exception ''boom'')" and e2: "is_Exception StopIteration_exn" by simp_all
  have f1: "fails ((mock_con (tl three_messages))\<lparr>calls := [Consume ''q'' 1]\<rparr>) [Consume ''q'' 1]
        (BasicNack 0) = None"
    and f2: "fails ((mock_con (tl three_messages))\<lparr>calls := [Consume ''q'' 1]\<rparr>)
        [Consume ''q'' 1, BasicNack 0] Cancel = None"
    by (simp_all add: example_defs)
  have t: "gen_throw ((message_generator connected_sub 1 None None)\<lparr>pc := Suspended (Method 0)\<rparr>)
        (Exception ''boom'') ((mock_con (tl three_messages))\<lparr>calls := [Consume ''q'' 1]\<rparr>)
     = (Raise (Exception ''boom''),
        (message_generator connected_sub 1 None None)\<lparr>pc := Done\<rparr>,
        (mock_con (tl three_messages))\<lparr>calls := [Consume ''q'' 1, BasicNack 0, Cancel]\<rparr>)"
    by (simp add: example_defs gen_defs)
  have t2: "gen_throw ((message_generator connected_sub 1 None None)\<lparr>pc := Suspended (Method 0)\<rparr>)
        StopIteration_exn ((mock_con (tl three_messages))\<lparr>calls := [Consume ''q'' 1]\<rparr>)
     = (Raise (RuntimeError ''generator raised StopIteration''),
        (message_generator connected_sub 1 None None)\<lparr>pc := Done\<rparr>,
        (mock_con (tl three_messages))\<lparr>calls := [Consume ''q'' 1, BasicNack 0, Cancel]\<rparr>)"
    by (simp add: example_defs gen_defs)
  from default_propagate_error_reraises[OF r e t] default_propagate_error_reraises[OF r e2 t2]
       r e e2 f1 f2 t t2
  show ?thesis by simp
qed

text \<open>
  Claim C7. When an operation takes the generator to the head of the loop, no library
  call raises, and the next item of the stream has no method frame, the operation ends
  with \<^verbatim>\<open>StopIteration\<close>: the generator has finished after \<^verbatim>\<open>cancel\<close>, the items
  behind the one without method frame stay on the stream, every later \<^verbatim>\<open>next\<close> gives
  \<^verbatim>\<open>StopIteration\<close> again, and whatever the caller goes on to do no message is
  yielded.
\<close>

theorem no_method_item_ends_generator:
  assumes "resume a g w = (out, g1, w1)" and "fetches g a" and "fails w = never_fails"
      and "feed w = Item None h b # rest"
  shows "out = StopIteration \<and> pc g1 = Done \<and> feed w1 = rest \<and> last (calls w1) = Cancel
       \<and> gen_next g1 w2 = (StopIteration, g1, w2)
       \<and> drive as (out, g1, w1) = ([], StopIteration, g1, w1)"
proof -
  have 1: "out = StopIteration \<and> pc g1 = Done \<and> feed w1 = rest \<and> last (calls w1) = Cancel"
    using assms
    by (cases a; cases "pc g")
       (auto simp: gen_next_def gen_throw_def for_loop_def finally_cancel_eq invoke_def
                   never_fails_def split: if_splits)
  then have 2: "gen_next g1 w2 = (StopIteration, g1, w2)" by (simp add: gen_next_def)
  from 1 have 3: "drive as (out, g1, w1) = ([], StopIteration, g1, w1)" by (cases as) simp_all
  from 1 2 3 show ?thesis by simp
qed

theorem no_method_item_ends_generator_witness:
  "resume Next ((message_generator connected_sub 1 None None)\<lparr>pc := Suspended (Method 0)\<rparr>)
       ((mock_con [Item None [] [], Item (Some (Method 1)) [] ''baz-1''])\<lparr>calls := [Consume ''q'' 1]\<rparr>)
     = (StopIteration,
        (message_generator connected_sub 1 None None)\<lparr>pc := Done\<rparr>,
        (mock_con [Item (Some (Method 1)) [] ''baz-1''])
          \<lparr>calls := [Consume ''q'' 1, BasicAck 0, Cancel]\<rparr>)
   \<and> fetches ((message_generator connected_sub 1 None None)\<lparr>pc := Suspended (Method 0)\<rparr>) Next
   \<and> fails ((mock_con [Item None [] [], Item (Some (Method 1)) [] ''baz-1''])\<lparr>calls := [Consume ''q'' 1]\<rparr>)
       = never_fails
   \<and> feed ((mock_con [Item None [] [], Item (Some (Method 1)) [] ''baz-1''])\<lparr>calls := [Consume ''q'' 1]\<rparr>)
       = Item None [] [] # [Item (Some (Method 1)) [] ''baz-1'']
   \<and> gen_next ((message_generator connected_sub 1 None None)\<lparr>pc := Done\<rparr>)
        ((mock_con [Item (Some (Method 1)) [] ''baz-1''])
          \<lparr>calls := [Consume ''q'' 1, BasicAck 0, Cancel]\<rparr>)
     = (StopIteration,
        (message_generator connected_sub 1 None None)\<lparr>pc := Done\<rparr>,
        (mock_con [Item (Some (Method 1)) [] ''baz-1''])
          \<lparr>calls := [Consume ''q'' 1, BasicAck 0, Cancel]\<rparr>)"
proof -
  have s: "resume Next ((message_generator connected_sub 1 None None)\<lparr>pc := Suspended (Method 0)\<rparr>)
       ((mock_con [Item None [] [], Item (Some (Method 1)) [] ''baz-1''])\<lparr>calls := [Consume ''q'' 1]\<rparr>)
     = (StopIteration,
        (message_generator connected_sub 1 None None)\<lparr>pc := Done\<rparr>,
        (mock_con [Item (Some (Method 1)) [] ''baz-1''])
          \<lparr>calls := [Consume ''q'' 1, BasicAck 0, Cancel]\<rparr>)"
    by (simp add: example_defs gen_defs)
  have f: "fetches ((message_generator connected_sub 1 None None)\<lparr>pc := Suspended (Method 0)\<rparr>) Next"
    by simp
  have n: "fails ((mock_con [Item None [] [], Item (Some (Method 1)) [] ''baz-1''])\<lparr>calls := [Consume ''q'' 1]\<rparr>)
       = never_fails"
    by (simp add: mock_con_def)
  have d: "feed ((mock_con [Item None [] [], Item (Some (Method 1)) [] ''baz-1''])\<lparr>calls := [Consume ''q'' 1]\<rparr>)
       = Item None [] [] # [Item (Some (Method 1)) [] ''baz-1'']"
    by (simp add: mock_con_def)
  from no_method_item_ends_generator[OF s f n d, of "(mock_con [Item (Some (Method 1)) [] ''baz-1''])
          \<lparr>calls := [Consume ''q'' 1, BasicAck 0, Cancel]\<rparr>" "[]"] s f n d
  show ?thesis by simp
qed

text \<open>
  Claim C8. For every address, name and prefetch of at least 1, \<^verbatim>\<open>create_sub_queue\<close>
  opens a connection and a channel for the new handle alone and then sets the flow
  control of that channel: the third and last call is \<^verbatim>\<open>basic_qos\<close> with the given
  prefetch as \<^verbatim>\<open>prefetch_count\<close>, and with \<^verbatim>\<open>global_qos=True\<close>, so that the count
  bounds the unacknowledged messages of the whole channel, which is this subscriber's
  own. A handle is returned exactly when the three calls return; it is connected and
  carries the given address, name and prefetch. Leaving the prefetch out is giving 1.
  Holding deliveries back at the count is the broker's part.
\<close>

theorem create_sub_queue_sets_prefetch:
  assumes "1 \<le> p" and "create_sub_queue a n (Some p) w = (r, w1)"
  shows "(r = Inr ((RabbitMQSub_init a n)\<lparr>prefetch := p, connection := Some Connection,
                                         channel := Some Channel\<rparr>)
          \<longleftrightarrow> fails w (calls w) (BlockingConnection a) = None
              \<and> fails w (calls w @ [BlockingConnection a]) ConnectionChannel = None
              \<and> fails w (calls w @ [BlockingConnection a, ConnectionChannel]) (BasicQos p True)
                  = None)
       \<and> (\<forall>q. r = Inr q \<longrightarrow>
            q = (RabbitMQSub_init a n)\<lparr>prefetch := p, connection := Some Connection,
                                      channel := Some Channel\<rparr>
            \<and> prefetch q = p \<and> 1 \<le> prefetch q
            \<and> issued w w1 = [BlockingConnection a, ConnectionChannel, BasicQos p True])
       \<and> create_sub_queue a n None w = create_sub_queue a n (Some 1) w"
  using assms
  by (auto simp: create_sub_queue_def RabbitMQSub_connect_def connect_def invoke_def issued_def
        RabbitMQSub_init_def RabbitMQ_init_def Let_def
        split: option.splits prod.splits)

theorem create_sub_queue_sets_prefetch_witness:
  "(1::int) \<le> 213
   \<and> create_sub_queue ''localhost'' ''q'' (Some 213) (mock_con [])
     = (Inr (connected_sub\<lparr>prefetch := 213\<rparr>),
        (mock_con [])\<lparr>calls := [BlockingConnection ''localhost'', ConnectionChannel,
                                 BasicQos 213 True]\<rparr>)
   \<and> create_sub_queue ''localhost'' ''q'' None (mock_con [])
       = (Inr connected_sub,
          (mock_con [])\<lparr>calls := [BlockingConnection ''localhost'', ConnectionChannel,
                                   BasicQos 1 True]\<rparr>)
   \<and> prefetch (connected_sub\<lparr>prefetch := 213\<rparr>) = 213
   \<and> issued (mock_con [])
        ((mock_con [])\<lparr>calls := [BlockingConnection ''localhost'', ConnectionChannel,
                                 BasicQos 213 True]\<rparr>)
       = [BlockingConnection ''localhost'', ConnectionChannel, BasicQos 213 True]"
proof -
  have l: "(1::int) \<le> 213" by simp
  have c: "create_sub_queue ''localhost'' ''q'' (Some 213) (mock_con [])
     = (Inr (connected_sub\<lparr>prefetch := 213\<rparr>),
        (mock_con [])\<lparr>calls := [BlockingConnection ''localhost'', ConnectionChannel,
                                 BasicQos 213 True]\<rparr>)"
    by (simp add: create_sub_queue_def RabbitMQSub_connect_def connect_def invoke_def example_defs)
  have d: "create_sub_queue ''localhost'' ''q'' None (mock_con [])
       = (Inr connected_sub,
          (mock_con [])\<lparr>calls := [BlockingConnection ''localhost'', ConnectionChannel,
                                   BasicQos 1 True]\<rparr>)"
    by (simp add: create_sub_queue_def RabbitMQSub_connect_def connect_def invoke_def example_defs)
  from create_sub_queue_sets_prefetch[OF l c] l c d show ?thesis
    by (simp add: issued_def mock_con_def)
qed



text \<open>
  Claim C10. On a handle whose channel is unset, \<^verbatim>\<open>send_message\<close>,
  \<^verbatim>\<open>get_message\<close> and \<^verbatim>\<open>ack_message\<close> raise \<^verbatim>\<open>RuntimeError\<close> with the message
  \<^verbatim>\<open>queue is not connected\<close> and leave the world as it was: no library call is made.
  The generator of \<^verbatim>\<open>message_generator\<close> raises the same error on its first
  \<^verbatim>\<open>next\<close>, has then finished, and a run of it yields no message and makes no call. A
  handle that was constructed and never connected is such a handle.
\<close>

theorem unconnected_handle_raises:
  assumes "channel q = None"
  shows "send_message q msg w = (Inl (RuntimeError ''queue is not connected''), w)
       \<and> get_message q w = (Inl (RuntimeError ''queue is not connected''), w)
       \<and> ack_message q i w = (Inl (RuntimeError ''queue is not connected''), w)
       \<and> gen_next (message_generator q t aa pe) w
           = (Raise (RuntimeError ''queue is not connected''), (message_generator q t aa pe)\<lparr>pc := Done\<rparr>, w)
       \<and> run (message_generator q t aa pe) as w
           = ([], Raise (RuntimeError ''queue is not connected''), (message_generator q t aa pe)\<lparr>pc := Done\<rparr>, w)"
  using assms
  by (cases as) (simp_all add: send_message_def get_message_def ack_message_def run_def gen_next_def
        message_generator_def not_connected_def)

theorem unconnected_handle_raises_witness:
  "channel (RabbitMQSub_init ''localhost'' ''q'') = None
   \<and> send_message (RabbitMQ_init ''localhost'' ''q'') ''foo'' (mock_con three_messages)
       = (Inl (RuntimeError ''queue is not connected''), mock_con three_messages)
   \<and> get_message (RabbitMQSub_init ''localhost'' ''q'') (mock_con three_messages)
       = (Inl (RuntimeError ''queue is not connected''), mock_con three_messages)
   \<and> ack_message (RabbitMQSub_init ''localhost'' ''q'') 12 (mock_con three_messages)
       = (Inl (RuntimeError ''queue is not connected''), mock_con three_messages)
   \<and> run (message_generator (RabbitMQSub_init ''localhost'' ''q'') 1 None None) [Next, Next]
         (mock_con three_messages)
       = ([], Raise (RuntimeError ''queue is not connected''),
          (message_generator (RabbitMQSub_init ''localhost'' ''q'') 1 None None)\<lparr>pc := Done\<rparr>,
          mock_con three_messages)"
proof -
  have s: "channel (RabbitMQSub_init ''localhost'' ''q'') = None"
    and p: "channel (RabbitMQ_init ''localhost'' ''q'') = None"
    by (simp_all add: RabbitMQSub_init_def RabbitMQ_init_def)
  from unconnected_handle_raises[OF s, of "''foo''" "mock_con three_messages" 12 1 None None "[Next, Next]"]
       unconnected_handle_raises[OF p, of "''foo''" "mock_con three_messages" 12 1 None None "[Next, Next]"] s
  show ?thesis by simp
qed

end
